theory Spec2Isabelle
  imports Main
begin

section \<open>The todo panel: lifecycle and message bridge\<close>

text \<open>
  A shallow embedding of \<^verbatim>\<open>src/panels/HelloWorldPanel.ts\<close>: the class
  \<^verbatim>\<open>HelloWorldPanel\<close> with its static field \<^verbatim>\<open>currentPanel\<close>, the methods
  \<^verbatim>\<open>render\<close>, \<^verbatim>\<open>dispose\<close>, \<^verbatim>\<open>updateWebview\<close>, \<^verbatim>\<open>reloadWebview\<close>, the constructor and the
  listener that \<^verbatim>\<open>_setWebviewMessageListener\<close> registers. Objects live in an explicit
  store, so that several panel instances can exist side by side and a stale reference can
  be told from the current one. Every call the class makes on the editor host or on the
  state container is recorded in the world, in the order the code makes it.
\<close>

subsection \<open>Declarations the file imports\<close>

text \<open>
  Modelled from the spec: the enumeration \<^verbatim>\<open>TodoScope\<close> of \<^verbatim>\<open>../todo/todoTypes\<close> is not
  among the sources. The glossary gives its two members: todo data is either user-level or
  workspace-level.
\<close>

datatype TodoScope = user | workspace

text \<open>
  Modelled from the spec: the enumeration \<^verbatim>\<open>MessageActionsFromWebview\<close> of \<^verbatim>\<open>./message\<close> is
  not among the sources. A message is a tagged payload; the tags are the five members the
  listener's \<^verbatim>\<open>switch\<close> names.
\<close>

datatype MessageActionsFromWebview =
  type_addTodo | type_deleteTodo | type_toggleTodo | type_editTodo | type_reorderTodo

text \<open>
  A message arrives from the webview as untyped data, so a field that is declared with an
  enumeration type holds either a member of the enumeration or some other value. The
  listener compares with \<^verbatim>\<open>===\<close> against members only.
\<close>

datatype 'e received = Member 'e | Foreign string

record 'p Message =
  type :: "MessageActionsFromWebview received"
  scope :: "TodoScope received"
  payload :: 'p

text \<open>
  \<^verbatim>\<open>userActions\<close> and \<^verbatim>\<open>workspaceActions\<close> (\<^verbatim>\<open>../todo/store\<close>) are two objects of action
  creators with the same five members. They are parameters of the listener.
\<close>

record ('p, 'a) storeActions =
  addTodo :: "'p \<Rightarrow> 'a"
  deleteTodo :: "'p \<Rightarrow> 'a"
  toggleTodo :: "'p \<Rightarrow> 'a"
  editTodo :: "'p \<Rightarrow> 'a"
  reorderTodo :: "'p \<Rightarrow> 'a"

text \<open>
  \<^verbatim>\<open>messagesToWebview\<close> (\<^verbatim>\<open>./message\<close>) holds the creators of the two outbound messages,
  \<^verbatim>\<open>reloadWebview\<close> and \<^verbatim>\<open>syncData\<close>. They are parameters as well; the prefix keeps them
  apart from the method \<^verbatim>\<open>reloadWebview\<close> of the class.
\<close>

record ('s, 'sl, 'm) messagesToWebview =
  mk_reloadWebview :: "'s \<Rightarrow> 'm"
  mk_syncData :: "'sl \<Rightarrow> 'm"

subsection \<open>The state container\<close>

text \<open>
  The \<^verbatim>\<open>EnhancedStore\<close> is external. The class calls \<^verbatim>\<open>getState\<close> and \<^verbatim>\<open>dispatch\<close> on it:
  a store carries its state and its reducer, and \<open>dispatched\<close> records the actions it
  was handed, oldest first. Subscribers of the store are registered outside this file and
  are not part of the model.
\<close>

record ('s, 'a) EnhancedStore =
  state :: 's
  reducer :: "'s \<Rightarrow> 'a \<Rightarrow> 's"
  dispatched :: "'a list"

definition getState :: "('s, 'a) EnhancedStore \<Rightarrow> 's" where
  "getState st = state st"

definition dispatch :: "'a \<Rightarrow> ('s, 'a) EnhancedStore \<Rightarrow> ('s, 'a) EnhancedStore" where
  "dispatch a st = st\<lparr>state := reducer st (state st) a, dispatched := dispatched st @ [a]\<rparr>"

subsection \<open>Host objects and the object store\<close>

datatype ViewColumn = Active | Beside | Column nat

datatype Event = onDidDispose | onDidReceiveMessage

text \<open>
  A \<^verbatim>\<open>Disposable\<close> in \<^verbatim>\<open>_disposables\<close> is the subscription the host returned when a
  listener was registered: it names the panel and the event.
\<close>

datatype Disposable = Subscription nat Event

text \<open>
  The host's \<^verbatim>\<open>WebviewPanel\<close>: what it was created with, the two flags the class reads
  or sets off (\<open>active\<close> is owned by the host), the events on which the instance's
  listener is registered, and the calls \<^verbatim>\<open>reveal\<close> and \<^verbatim>\<open>webview.postMessage\<close> received.
  The page content and the creation options are written once and read by no method; the
  model does not carry them.
\<close>

record 'm WebviewPanel =
  viewType :: string
  title :: string
  viewColumn :: ViewColumn
  active :: bool
  isDisposed :: bool
  listeners :: "Event set"
  revealed :: "ViewColumn list"
  posted :: "'m list"

text \<open>
  An instance of the class. The constructor is private and \<^verbatim>\<open>render\<close> hands every
  instance a panel of its own, so an instance and its \<^verbatim>\<open>_panel\<close> share one cell of the
  object store and one reference. \<open>store\<close> is the reference held in \<^verbatim>\<open>_store\<close>; an
  element \<open>None\<close> of \<open>disposables\<close> is an entry that fails the test
  \<^verbatim>\<open>if (disposable)\<close>.
\<close>

record 'm HelloWorldPanel =
  panel :: "'m WebviewPanel"
  disposables :: "Disposable option list"
  store :: nat

text \<open>
  The world: the static \<^verbatim>\<open>HelloWorldPanel.currentPanel\<close>, the object store with the
  number of cells in use (references are handed out in order), the state containers, and
  the lines written by \<^verbatim>\<open>console.error\<close>.
\<close>

record ('s, 'a, 'm) world =
  currentPanel :: "nat option"
  heap :: "nat \<Rightarrow> 'm HelloWorldPanel"
  allocated :: nat
  stores :: "nat \<Rightarrow> ('s, 'a) EnhancedStore"
  console :: "string list"

definition update_panel ::
  "nat \<Rightarrow> ('m WebviewPanel \<Rightarrow> 'm WebviewPanel) \<Rightarrow> ('s, 'a, 'm) world \<Rightarrow> ('s, 'a, 'm) world" where
  "update_panel p f w = w\<lparr>heap := (heap w)(p := (heap w p)\<lparr>panel := f (panel (heap w p))\<rparr>)\<rparr>"

text \<open>\<^verbatim>\<open>window.createWebviewPanel\<close>: a fresh panel, showing, in a fresh cell.\<close>

definition createWebviewPanel ::
  "string \<Rightarrow> string \<Rightarrow> ViewColumn \<Rightarrow> ('s, 'a, 'm) world \<Rightarrow> nat \<times> ('s, 'a, 'm) world" where
  "createWebviewPanel vt t col w =
     (allocated w,
      w\<lparr>heap := (heap w)(allocated w :=
           \<lparr>panel = \<lparr>viewType = vt, title = t, viewColumn = col, active = True,
                     isDisposed = False, listeners = {}, revealed = [], posted = []\<rparr>,
            disposables = [], store = 0\<rparr>),
        allocated := Suc (allocated w)\<rparr>)"

text \<open>
  \<^verbatim>\<open>event(listener, thisArgs, disposables)\<close>: the listener is registered and the
  subscription is pushed onto the array passed third, here always \<^verbatim>\<open>this._disposables\<close>.
\<close>

definition subscribe :: "Event \<Rightarrow> nat \<Rightarrow> ('s, 'a, 'm) world \<Rightarrow> ('s, 'a, 'm) world" where
  "subscribe ev this w =
     w\<lparr>heap := (heap w)(this := (heap w this)
          \<lparr>panel := (panel (heap w this))\<lparr>listeners := insert ev (listeners (panel (heap w this)))\<rparr>,
           disposables := disposables (heap w this) @ [Some (Subscription this ev)]\<rparr>)\<rparr>"

text \<open>Disposing of a subscription takes the listener off the event.\<close>

definition Disposable_dispose :: "Disposable \<Rightarrow> ('s, 'a, 'm) world \<Rightarrow> ('s, 'a, 'm) world" where
  "Disposable_dispose d w =
     (case d of Subscription p ev \<Rightarrow>
        update_panel p (\<lambda>pn. pn\<lparr>listeners := listeners pn - {ev}\<rparr>) w)"

definition postMessage :: "nat \<Rightarrow> 'm \<Rightarrow> ('s, 'a, 'm) world \<Rightarrow> ('s, 'a, 'm) world" where
  "postMessage p msg w = update_panel p (\<lambda>pn. pn\<lparr>posted := posted pn @ [msg]\<rparr>) w"

text \<open>
  The getter \<^verbatim>\<open>webview\<close> of a panel. The host hands the webview out while the panel is
  open; once the panel is disposed the getter raises \<^verbatim>\<open>Webview is disposed\<close>. A webview
  shares the reference of its panel.
\<close>

datatype error = Webview_is_disposed

definition webview :: "nat \<Rightarrow> ('s, 'a, 'm) world \<Rightarrow> error + nat" where
  "webview p w = (if isDisposed (panel (heap w p)) then Inl Webview_is_disposed else Inr p)"

definition reveal :: "nat \<Rightarrow> ViewColumn \<Rightarrow> ('s, 'a, 'm) world \<Rightarrow> ('s, 'a, 'm) world" where
  "reveal p col w = update_panel p (\<lambda>pn. pn\<lparr>revealed := revealed pn @ [col]\<rparr>) w"

definition console_error :: "string \<Rightarrow> ('s, 'a, 'm) world \<Rightarrow> ('s, 'a, 'm) world" where
  "console_error line w = w\<lparr>console := console w @ [line]\<rparr>"

subsection \<open>dispose\<close>

text \<open>
  The loop of \<^verbatim>\<open>dispose\<close>: while the array is not empty, pop its last entry and, if the
  entry is truthy, dispose of it.
\<close>

function dispose_loop :: "nat \<Rightarrow> ('s, 'a, 'm) world \<Rightarrow> ('s, 'a, 'm) world" where
  "dispose_loop this w =
     (if disposables (heap w this) = [] then w
      else
        let disposable = last (disposables (heap w this));
            w1 = w\<lparr>heap := (heap w)(this := (heap w this)
                    \<lparr>disposables := butlast (disposables (heap w this))\<rparr>)\<rparr>
        in dispose_loop this
             (case disposable of None \<Rightarrow> w1 | Some d \<Rightarrow> Disposable_dispose d w1))"
  by pat_completeness auto
termination
  by (relation "measure (\<lambda>(this, w). length (disposables (heap w this)))")
     (auto simp: Disposable_dispose_def update_panel_def split: option.splits Disposable.splits)

text \<open>
  \<^verbatim>\<open>dispose\<close> of the class and \<^verbatim>\<open>dispose\<close> of the host's panel call each other. The host
  closes a panel once: a panel that is already disposed ignores the call; otherwise it is
  marked disposed and \<^verbatim>\<open>onDidDispose\<close> fires, which runs the listener the constructor
  registered, \<^verbatim>\<open>() => this.dispose()\<close>, if it is still registered. The same happens when
  the user closes the panel.
\<close>

function dispose :: "nat \<Rightarrow> ('s, 'a, 'm) world \<Rightarrow> ('s, 'a, 'm) world"
  and WebviewPanel_dispose :: "nat \<Rightarrow> ('s, 'a, 'm) world \<Rightarrow> ('s, 'a, 'm) world" where
  "dispose this w =
     dispose_loop this (WebviewPanel_dispose this (w\<lparr>currentPanel := None\<rparr>))"
| "WebviewPanel_dispose p w =
     (if isDisposed (panel (heap w p)) then w
      else
        let w1 = update_panel p (\<lambda>pn. pn\<lparr>isDisposed := True\<rparr>) w
        in if onDidDispose \<in> listeners (panel (heap w p)) then dispose p w1 else w1)"
  by pat_completeness auto
termination
  by (relation "measure (\<lambda>x. case x of
          Inl (this, w) \<Rightarrow> (if isDisposed (panel (heap w this)) then 1 else 3)
        | Inr (p, w) \<Rightarrow> (if isDisposed (panel (heap w p)) then 0 else 2))")
     (auto simp: update_panel_def)

subsection \<open>The other methods of the class\<close>

definition reloadWebview ::
  "('s, 'sl, 'm) messagesToWebview \<Rightarrow> nat \<Rightarrow> ('s, 'a, 'm) world \<Rightarrow> ('s, 'a, 'm) world" where
  "reloadWebview mtw this w =
     (let currentState = getState (stores w (store (heap w this)))
      in postMessage this (mk_reloadWebview mtw currentState) w)"

text \<open>
  \<^verbatim>\<open>updateWebview\<close> is public and can be called on any instance, also on one whose panel
  is disposed: \<^verbatim>\<open>this._panel.webview\<close> raises there, before anything is posted, and the
  world stays as it was. \<^verbatim>\<open>reloadWebview\<close> above is private and runs only inside the
  constructor, on the panel \<^verbatim>\<open>render\<close> has just created.
\<close>

definition updateWebview ::
  "('s, 'sl, 'm) messagesToWebview \<Rightarrow> nat \<Rightarrow> 'sl \<Rightarrow> ('s, 'a, 'm) world \<Rightarrow>
   error + ('s, 'a, 'm) world" where
  "updateWebview mtw this newSliceState w =
     (case webview this w of
        Inl e \<Rightarrow> Inl e
      | Inr wv \<Rightarrow> Inr (postMessage wv (mk_syncData mtw newSliceState) w))"

definition setWebviewMessageListener :: "nat \<Rightarrow> ('s, 'a, 'm) world \<Rightarrow> ('s, 'a, 'm) world" where
  "setWebviewMessageListener this w = subscribe onDidReceiveMessage this w"

text \<open>
  The constructor, on the cell that holds the panel it is given: \<^verbatim>\<open>_disposables\<close> starts
  empty, the reference to the state container is stored, then it registers \<^verbatim>\<open>() => this.dispose()\<close> on \<^verbatim>\<open>onDidDispose\<close>, registers
  the message listener, and reloads the webview.
\<close>

definition constructor ::
  "('s, 'sl, 'm) messagesToWebview \<Rightarrow> nat \<Rightarrow> nat \<Rightarrow> ('s, 'a, 'm) world \<Rightarrow> ('s, 'a, 'm) world" where
  "constructor mtw this st w =
     (let w1 = w\<lparr>heap := (heap w)(this := (heap w this)\<lparr>disposables := [], store := st\<rparr>)\<rparr>;
          w2 = subscribe onDidDispose this w1;
          w3 = setWebviewMessageListener this w2
      in reloadWebview mtw this w3)"

definition render ::
  "('s, 'sl, 'm) messagesToWebview \<Rightarrow> nat \<Rightarrow> ('s, 'a, 'm) world \<Rightarrow> ('s, 'a, 'm) world" where
  "render mtw st w =
     (case currentPanel w of
        Some cp \<Rightarrow>
          if active (panel (heap w cp)) then WebviewPanel_dispose cp w
          else reveal cp Beside w
      | None \<Rightarrow>
          (case createWebviewPanel ''showVscodeTodoWebview'' ''Todo'' Beside w of
             (p, w1) \<Rightarrow> (constructor mtw p st w1)\<lparr>currentPanel := Some p\<rparr>))"

subsection \<open>The message listener\<close>

definition store_dispatch :: "nat \<Rightarrow> 'a \<Rightarrow> ('s, 'a, 'm) world \<Rightarrow> ('s, 'a, 'm) world" where
  "store_dispatch this a w =
     w\<lparr>stores := (stores w)(store (heap w this) := dispatch a (stores w (store (heap w this))))\<rparr>"

text \<open>The \<^verbatim>\<open>switch\<close> on \<^verbatim>\<open>message.type\<close>, with the action set already chosen.\<close>

definition switch_type ::
  "('p, 'a) storeActions \<Rightarrow> nat \<Rightarrow> ('p, 'z) Message_scheme \<Rightarrow> ('s, 'a, 'm) world \<Rightarrow> ('s, 'a, 'm) world" where
  "switch_type storeActions this message w =
     (case type message of
        Member type_addTodo \<Rightarrow> store_dispatch this (addTodo storeActions (payload message)) w
      | Member type_deleteTodo \<Rightarrow> store_dispatch this (deleteTodo storeActions (payload message)) w
      | Member type_toggleTodo \<Rightarrow> store_dispatch this (toggleTodo storeActions (payload message)) w
      | Member type_editTodo \<Rightarrow> store_dispatch this (editTodo storeActions (payload message)) w
      | Member type_reorderTodo \<Rightarrow> store_dispatch this (reorderTodo storeActions (payload message)) w
      | Foreign v \<Rightarrow> console_error ''Action not found'' w)"

text \<open>
  The listener registered on \<^verbatim>\<open>onDidReceiveMessage\<close>, for the instance \<open>this\<close>: pick the
  action set by the scope, or log and return; then switch on the type.
\<close>

definition webviewMessageListener ::
  "('p, 'a) storeActions \<Rightarrow> ('p, 'a) storeActions \<Rightarrow> nat \<Rightarrow> ('p, 'z) Message_scheme \<Rightarrow>
   ('s, 'a, 'm) world \<Rightarrow> ('s, 'a, 'm) world" where
  "webviewMessageListener userActions workspaceActions this message w =
     (if scope message = Member user then switch_type userActions this message w
      else if scope message = Member workspace then switch_type workspaceActions this message w
      else console_error ''Action scope not found'' w)"

subsection \<open>Notions the properties are stated with\<close>

text \<open>One pass through the body of the loop of \<^verbatim>\<open>dispose\<close>, on a non-empty array.\<close>

definition pop_dispose :: "nat \<Rightarrow> ('s, 'a, 'm) world \<Rightarrow> ('s, 'a, 'm) world" where
  "pop_dispose this w =
     (case last (disposables (heap w this)) of
        None \<Rightarrow>
          w\<lparr>heap := (heap w)(this := (heap w this)
              \<lparr>disposables := butlast (disposables (heap w this))\<rparr>)\<rparr>
      | Some d \<Rightarrow>
          Disposable_dispose d
            (w\<lparr>heap := (heap w)(this := (heap w this)
                \<lparr>disposables := butlast (disposables (heap w this))\<rparr>)\<rparr>))"

text \<open>A subscription has been disposed of when its listener is off the event.\<close>

definition subscription_disposed :: "Disposable \<Rightarrow> ('s, 'a, 'm) world \<Rightarrow> bool" where
  "subscription_disposed d w =
     (case d of Subscription p ev \<Rightarrow> ev \<notin> listeners (panel (heap w p)))"

text \<open>The live panels: the panels created so far that have not been disposed.\<close>

definition live_panels :: "('s, 'a, 'm) world \<Rightarrow> nat list" where
  "live_panels w = filter (\<lambda>p. \<not> isDisposed (panel (heap w p))) [0..<allocated w]"

text \<open>Every live panel is the one \<^verbatim>\<open>currentPanel\<close> refers to.\<close>

definition single_panel :: "('s, 'a, 'm) world \<Rightarrow> bool" where
  "single_panel w = list_all (\<lambda>p. currentPanel w = Some p) (live_panels w)"

text \<open>
  The actions the store of the instance \<open>this\<close> was handed between the world \<open>w\<close>
  and the later world \<open>w'\<close>.
\<close>

definition newly_dispatched :: "nat \<Rightarrow> ('s, 'a, 'm) world \<Rightarrow> ('s, 'a, 'm) world \<Rightarrow> 'a list" where
  "newly_dispatched this w w' =
     drop (length (dispatched (stores w (store (heap w this)))))
       (dispatched (stores w' (store (heap w this))))"

text \<open>
  The specification's reading of the bridge, to compare the listener with: the scope
  selects the action set, and the type of the message names the creator in it.
\<close>

definition actions_of_scope ::
  "('p, 'a) storeActions \<Rightarrow> ('p, 'a) storeActions \<Rightarrow> TodoScope \<Rightarrow> ('p, 'a) storeActions" where
  "actions_of_scope userActions workspaceActions sc =
     (case sc of user \<Rightarrow> userActions | workspace \<Rightarrow> workspaceActions)"

definition action_named :: "MessageActionsFromWebview \<Rightarrow> ('p, 'a) storeActions \<Rightarrow> 'p \<Rightarrow> 'a" where
  "action_named t =
     (case t of
        type_addTodo \<Rightarrow> addTodo
      | type_deleteTodo \<Rightarrow> deleteTodo
      | type_toggleTodo \<Rightarrow> toggleTodo
      | type_editTodo \<Rightarrow> editTodo
      | type_reorderTodo \<Rightarrow> reorderTodo)"

text \<open>The actions a set of creators can create, from any payload.\<close>

definition created_by :: "('p, 'a) storeActions \<Rightarrow> 'a set" where
  "created_by acts =
     range (addTodo acts) \<union> range (deleteTodo acts) \<union> range (toggleTodo acts) \<union>
     range (editTodo acts) \<union> range (reorderTodo acts)"

subsection \<open>A concrete setting\<close>

text \<open>
  A store that counts, action creators and message creators that tag their argument, and
  the world before the first \<^verbatim>\<open>render\<close>. The cells not yet in use hold a closed panel.
\<close>

definition example_store :: "(nat, string \<times> nat) EnhancedStore" where
  "example_store = \<lparr>state = 0, reducer = (\<lambda>s a. s + snd a), dispatched = []\<rparr>"

definition example_userActions :: "(nat, string \<times> nat) storeActions" where
  "example_userActions =
     \<lparr>addTodo = Pair ''user/addTodo'', deleteTodo = Pair ''user/deleteTodo'',
      toggleTodo = Pair ''user/toggleTodo'', editTodo = Pair ''user/editTodo'',
      reorderTodo = Pair ''user/reorderTodo''\<rparr>"

definition example_workspaceActions :: "(nat, string \<times> nat) storeActions" where
  "example_workspaceActions =
     \<lparr>addTodo = Pair ''workspace/addTodo'', deleteTodo = Pair ''workspace/deleteTodo'',
      toggleTodo = Pair ''workspace/toggleTodo'', editTodo = Pair ''workspace/editTodo'',
      reorderTodo = Pair ''workspace/reorderTodo''\<rparr>"

definition example_messages :: "(nat, nat, string \<times> nat) messagesToWebview" where
  "example_messages =
     \<lparr>mk_reloadWebview = Pair ''reloadWebview'', mk_syncData = Pair ''syncData''\<rparr>"

definition blank_cell :: "(string \<times> nat) HelloWorldPanel" where
  "blank_cell =
     \<lparr>panel = \<lparr>viewType = [], title = [], viewColumn = Active, active = False,
               isDisposed = True, listeners = {}, revealed = [], posted = []\<rparr>,
      disposables = [], store = 0\<rparr>"

definition empty_world :: "(nat, string \<times> nat, string \<times> nat) world" where
  "empty_world =
     \<lparr>currentPanel = None, heap = (\<lambda>_. blank_cell), allocated = 0,
      stores = (\<lambda>_. example_store), console = []\<rparr>"

text \<open>The world after the first \<^verbatim>\<open>render\<close>, and the same with the panel out of focus.\<close>

definition shown_world :: "(nat, string \<times> nat, string \<times> nat) world" where
  "shown_world = render example_messages 0 empty_world"

definition hidden_world :: "(nat, string \<times> nat, string \<times> nat) world" where
  "hidden_world = update_panel 0 (\<lambda>pn. pn\<lparr>active := False\<rparr>) shown_world"

definition add_seven :: "nat Message" where
  "add_seven = \<lparr>type = Member type_addTodo, scope = Member user, payload = 7\<rparr>"

definition add_seven_tagged :: "(nat, nat) Message_scheme" where
  "add_seven_tagged =
     \<lparr>type = Member type_addTodo, scope = Member user, payload = 7, \<dots> = 42\<rparr>"

definition toggle_three :: "nat Message" where
  "toggle_three = \<lparr>type = Member type_toggleTodo, scope = Member workspace, payload = 3\<rparr>"

definition stray_scope :: "nat Message" where
  "stray_scope = \<lparr>type = Member type_addTodo, scope = Foreign ''team'', payload = 7\<rparr>"

definition stray_type :: "nat Message" where
  "stray_type = \<lparr>type = Foreign ''clearTodos'', scope = Member workspace, payload = 7\<rparr>"

section \<open>Properties\<close>

subsection \<open>The loop of dispose\<close>

declare dispose_loop.simps [simp del]
declare dispose.simps [simp del]
declare WebviewPanel_dispose.simps [simp del]

lemma dispose_loop_empty: "disposables (heap w this) = [] \<Longrightarrow> dispose_loop this w = w"
  by (subst dispose_loop.simps) simp

lemma dispose_loop_step:
  "disposables (heap w this) \<noteq> [] \<Longrightarrow>
   dispose_loop this w = dispose_loop this (pop_dispose this w)"
  by (subst dispose_loop.simps) (simp add: Let_def pop_dispose_def split: option.splits)

lemma pop_dispose_disposables:
  "disposables (heap (pop_dispose this w) q) =
     (if q = this then butlast (disposables (heap w this)) else disposables (heap w q))"
  by (simp add: pop_dispose_def Disposable_dispose_def update_panel_def
        split: option.splits Disposable.splits)

lemma pop_dispose_world:
  "currentPanel (pop_dispose this w) = currentPanel w \<and>
   allocated (pop_dispose this w) = allocated w \<and>
   stores (pop_dispose this w) = stores w \<and>
   console (pop_dispose this w) = console w"
  by (simp add: pop_dispose_def Disposable_dispose_def update_panel_def
        split: option.splits Disposable.splits)

lemma pop_dispose_panel:
  "isDisposed (panel (heap (pop_dispose this w) p)) = isDisposed (panel (heap w p)) \<and>
   revealed (panel (heap (pop_dispose this w) p)) = revealed (panel (heap w p)) \<and>
   posted (panel (heap (pop_dispose this w) p)) = posted (panel (heap w p)) \<and>
   listeners (panel (heap (pop_dispose this w) p)) \<subseteq> listeners (panel (heap w p))"
  by (auto simp add: pop_dispose_def Disposable_dispose_def update_panel_def
        split: option.splits Disposable.splits)

lemma pop_dispose_last:
  "last (disposables (heap w this)) = Some (Subscription p ev) \<Longrightarrow>
   ev \<notin> listeners (panel (heap (pop_dispose this w) p))"
  by (simp add: pop_dispose_def Disposable_dispose_def update_panel_def)

lemma dispose_loop_world:
  "currentPanel (dispose_loop this w) = currentPanel w \<and>
   allocated (dispose_loop this w) = allocated w \<and>
   stores (dispose_loop this w) = stores w \<and>
   console (dispose_loop this w) = console w"
proof (induction this w rule: dispose_loop.induct)
  case (1 this w)
  show ?case
  proof (cases "disposables (heap w this) = []")
    case True
    then show ?thesis by (simp add: dispose_loop_empty)
  next
    case False
    have "currentPanel (dispose_loop this (pop_dispose this w)) = currentPanel (pop_dispose this w) \<and>
          allocated (dispose_loop this (pop_dispose this w)) = allocated (pop_dispose this w) \<and>
          stores (dispose_loop this (pop_dispose this w)) = stores (pop_dispose this w) \<and>
          console (dispose_loop this (pop_dispose this w)) = console (pop_dispose this w)"
      using 1 [OF False refl refl] by (simp add: pop_dispose_def)
    then show ?thesis
      by (simp add: dispose_loop_step [OF False] pop_dispose_world)
  qed
qed

lemma dispose_loop_panel:
  "isDisposed (panel (heap (dispose_loop this w) p)) = isDisposed (panel (heap w p)) \<and>
   revealed (panel (heap (dispose_loop this w) p)) = revealed (panel (heap w p)) \<and>
   posted (panel (heap (dispose_loop this w) p)) = posted (panel (heap w p)) \<and>
   listeners (panel (heap (dispose_loop this w) p)) \<subseteq> listeners (panel (heap w p))"
proof (induction this w rule: dispose_loop.induct)
  case (1 this w)
  show ?case
  proof (cases "disposables (heap w this) = []")
    case True
    then show ?thesis by (simp add: dispose_loop_empty)
  next
    case False
    have ih:
      "isDisposed (panel (heap (dispose_loop this (pop_dispose this w)) p)) =
         isDisposed (panel (heap (pop_dispose this w) p)) \<and>
       revealed (panel (heap (dispose_loop this (pop_dispose this w)) p)) =
         revealed (panel (heap (pop_dispose this w) p)) \<and>
       posted (panel (heap (dispose_loop this (pop_dispose this w)) p)) =
         posted (panel (heap (pop_dispose this w) p)) \<and>
       listeners (panel (heap (dispose_loop this (pop_dispose this w)) p))
         \<subseteq> listeners (panel (heap (pop_dispose this w) p))"
      using 1 [OF False refl refl] by (simp add: pop_dispose_def)
    with pop_dispose_panel [of this w p] show ?thesis
      by (simp add: dispose_loop_step [OF False]) blast
  qed
qed

lemma dispose_loop_disposables: "disposables (heap (dispose_loop this w) this) = []"
proof (induction this w rule: dispose_loop.induct)
  case (1 this w)
  show ?case
  proof (cases "disposables (heap w this) = []")
    case True
    then show ?thesis by (simp add: dispose_loop_empty)
  next
    case False
    have "disposables (heap (dispose_loop this (pop_dispose this w)) this) = []"
      using 1 [OF False refl refl] by (simp add: pop_dispose_def)
    then show ?thesis by (simp add: dispose_loop_step [OF False])
  qed
qed

lemma last_or_butlast: "xs \<noteq> [] \<Longrightarrow> x \<in> set xs \<Longrightarrow> last xs = x \<or> x \<in> set (butlast xs)"
  by (induction xs) (auto split: if_splits)

lemma dispose_loop_disposes:
  "Some (Subscription p ev) \<in> set (disposables (heap w this)) \<Longrightarrow>
   ev \<notin> listeners (panel (heap (dispose_loop this w) p))"
proof (induction this w rule: dispose_loop.induct)
  case (1 this w)
  from "1.prems" have nonempty: "disposables (heap w this) \<noteq> []" by auto
  have step: "dispose_loop this w = dispose_loop this (pop_dispose this w)"
    by (rule dispose_loop_step [OF nonempty])
  have ih: "Some (Subscription p ev) \<in> set (disposables (heap (pop_dispose this w) this)) \<Longrightarrow>
            ev \<notin> listeners (panel (heap (dispose_loop this (pop_dispose this w)) p))"
    using "1.IH" [OF nonempty refl refl] by (simp add: pop_dispose_def)
  from last_or_butlast [OF nonempty "1.prems"] show ?case
  proof
    assume "last (disposables (heap w this)) = Some (Subscription p ev)"
    then have "ev \<notin> listeners (panel (heap (pop_dispose this w) p))"
      by (rule pop_dispose_last)
    with dispose_loop_panel [of this "pop_dispose this w" p] show ?thesis
      by (auto simp: step)
  next
    assume "Some (Subscription p ev) \<in> set (butlast (disposables (heap w this)))"
    then show ?thesis using ih by (simp add: step pop_dispose_disposables)
  qed
qed

lemma dispose_loop_twice: "dispose_loop this (dispose_loop this w) = dispose_loop this w"
  by (rule dispose_loop_empty) (rule dispose_loop_disposables)

subsection \<open>dispose and the host's dispose, without the recursion\<close>

lemma update_panel_same:
  "f (panel (heap w p)) = panel (heap w p) \<Longrightarrow> update_panel p f w = w"
  by (simp add: update_panel_def)

lemma WebviewPanel_dispose_disposed:
  "isDisposed (panel (heap w p)) \<Longrightarrow> WebviewPanel_dispose p w = w"
  by (simp add: WebviewPanel_dispose.simps)

lemma dispose_eq:
  "dispose this w =
     dispose_loop this
       (update_panel this (\<lambda>pn. pn\<lparr>isDisposed := True\<rparr>) (w\<lparr>currentPanel := None\<rparr>))"
proof (cases "isDisposed (panel (heap w this))")
  case True
  then show ?thesis
    by (simp add: dispose.simps [of this w] WebviewPanel_dispose_disposed update_panel_same)
next
  case False
  let ?w1 = "update_panel this (\<lambda>pn. pn\<lparr>isDisposed := True\<rparr>) (w\<lparr>currentPanel := None\<rparr>)"
  have d: "isDisposed (panel (heap ?w1 this))"
    by (simp add: update_panel_def)
  have "?w1\<lparr>currentPanel := None\<rparr> = ?w1"
    by (simp add: update_panel_def)
  then have inner: "dispose this ?w1 = dispose_loop this ?w1"
    using d by (simp add: dispose.simps [of this ?w1] WebviewPanel_dispose_disposed)
  show ?thesis
    using False inner
    by (simp add: dispose.simps [of this w]
          WebviewPanel_dispose.simps [of this "w\<lparr>currentPanel := None\<rparr>"]
          Let_def dispose_loop_twice)
qed

lemma WebviewPanel_dispose_eq:
  "WebviewPanel_dispose p w =
     (if isDisposed (panel (heap w p)) then w
      else if onDidDispose \<in> listeners (panel (heap w p)) then dispose p w
      else update_panel p (\<lambda>pn. pn\<lparr>isDisposed := True\<rparr>) w)"
proof -
  have "dispose p (update_panel p (\<lambda>pn. pn\<lparr>isDisposed := True\<rparr>) w) = dispose p w"
    by (simp add: dispose_eq) (simp add: update_panel_def)
  then show ?thesis
    by (simp add: WebviewPanel_dispose.simps [of p w] Let_def)
qed

lemma dispose_effect:
  "allocated (dispose this w) = allocated w \<and>
   currentPanel (dispose this w) = None \<and>
   isDisposed (panel (heap (dispose this w) p)) = (p = this \<or> isDisposed (panel (heap w p))) \<and>
   revealed (panel (heap (dispose this w) p)) = revealed (panel (heap w p)) \<and>
   posted (panel (heap (dispose this w) p)) = posted (panel (heap w p))"
proof -
  let ?w1 = "update_panel this (\<lambda>pn. pn\<lparr>isDisposed := True\<rparr>) (w\<lparr>currentPanel := None\<rparr>)"
  show ?thesis
    using dispose_loop_world [of this ?w1] dispose_loop_panel [of this ?w1 p]
    by (simp add: dispose_eq update_panel_def)
qed

lemma WebviewPanel_dispose_effect:
  "allocated (WebviewPanel_dispose p w) = allocated w \<and>
   isDisposed (panel (heap (WebviewPanel_dispose p w) q)) =
     (q = p \<or> isDisposed (panel (heap w q))) \<and>
   revealed (panel (heap (WebviewPanel_dispose p w) q)) = revealed (panel (heap w q)) \<and>
   posted (panel (heap (WebviewPanel_dispose p w) q)) = posted (panel (heap w q))"
proof (cases "isDisposed (panel (heap w p))")
  case True
  then show ?thesis by (auto simp: WebviewPanel_dispose_eq)
next
  case False
  show ?thesis
  proof (cases "onDidDispose \<in> listeners (panel (heap w p))")
    case True
    with False have "WebviewPanel_dispose p w = dispose p w"
      by (simp add: WebviewPanel_dispose_eq)
    then show ?thesis by (simp add: dispose_effect)
  next
    case False
    with \<open>\<not> isDisposed (panel (heap w p))\<close>
    have "WebviewPanel_dispose p w = update_panel p (\<lambda>pn. pn\<lparr>isDisposed := True\<rparr>) w"
      by (simp add: WebviewPanel_dispose_eq)
    then show ?thesis by (simp add: update_panel_def)
  qed
qed

subsection \<open>render\<close>

lemma render_new_cell:
  "currentPanel w = None \<Longrightarrow>
   heap (render mtw st w) (allocated w) =
     \<lparr>panel = \<lparr>viewType = ''showVscodeTodoWebview'', title = ''Todo'', viewColumn = Beside,
               active = True, isDisposed = False,
               listeners = {onDidDispose, onDidReceiveMessage}, revealed = [],
               posted = [mk_reloadWebview mtw (getState (stores w st))]\<rparr>,
      disposables = [Some (Subscription (allocated w) onDidDispose),
                     Some (Subscription (allocated w) onDidReceiveMessage)],
      store = st\<rparr>"
  by (auto simp add: render_def createWebviewPanel_def constructor_def subscribe_def
        setWebviewMessageListener_def reloadWebview_def postMessage_def update_panel_def Let_def)

lemma render_new_effect:
  "currentPanel w = None \<Longrightarrow>
   currentPanel (render mtw st w) = Some (allocated w) \<and>
   allocated (render mtw st w) = Suc (allocated w) \<and>
   stores (render mtw st w) = stores w \<and>
   console (render mtw st w) = console w \<and>
   \<not> isDisposed (panel (heap (render mtw st w) (allocated w))) \<and>
   (\<forall>p. p \<noteq> allocated w \<longrightarrow> heap (render mtw st w) p = heap w p)"
  by (simp add: render_def createWebviewPanel_def constructor_def subscribe_def
        setWebviewMessageListener_def reloadWebview_def postMessage_def update_panel_def Let_def)

lemma render_active:
  "currentPanel w = Some cp \<Longrightarrow> active (panel (heap w cp)) \<Longrightarrow>
   render mtw st w = WebviewPanel_dispose cp w"
  by (simp add: render_def)

lemma render_inactive:
  "currentPanel w = Some cp \<Longrightarrow> \<not> active (panel (heap w cp)) \<Longrightarrow>
   render mtw st w = reveal cp Beside w"
  by (simp add: render_def)

lemma render_existing:
  assumes "currentPanel w = Some cp"
  shows "allocated (render mtw st w) = allocated w \<and>
   (currentPanel (render mtw st w) = None \<or> currentPanel (render mtw st w) = Some cp)"
proof (cases "active (panel (heap w cp))")
  case True
  then have "render mtw st w = WebviewPanel_dispose cp w"
    using assms by (rule render_active [rotated])
  then show ?thesis
    using assms dispose_effect [of cp w cp]
    by (simp add: WebviewPanel_dispose_eq update_panel_def)
next
  case False
  then show ?thesis
    using assms by (simp add: render_def reveal_def update_panel_def)
qed

subsection \<open>One live panel\<close>

lemma single_panel_iff:
  "single_panel w \<longleftrightarrow>
     (\<forall>p < allocated w. \<not> isDisposed (panel (heap w p)) \<longrightarrow> currentPanel w = Some p)"
  by (auto simp: single_panel_def live_panels_def list_all_iff)

lemma single_panel_length:
  assumes "single_panel w"
  shows "length (live_panels w) \<le> 1"
proof -
  have dist: "distinct (live_panels w)" by (simp add: live_panels_def)
  have "card (set (live_panels w)) \<le> 1"
  proof (cases "currentPanel w")
    case None
    with assms have "set (live_panels w) = {}"
      by (auto simp: single_panel_def list_all_iff)
    then show ?thesis by simp
  next
    case (Some p)
    with assms have "set (live_panels w) \<subseteq> {p}"
      by (auto simp: single_panel_def list_all_iff)
    then have "card (set (live_panels w)) \<le> card {p}"
      by (intro card_mono) simp_all
    then show ?thesis by simp
  qed
  then show ?thesis using dist by (simp add: distinct_card)
qed

lemma dispose_single_panel:
  assumes "single_panel w" and "currentPanel w = Some this \<or> live_panels w = []"
  shows "single_panel (dispose this w)"
proof -
  have "p = this" if "p < allocated w" "\<not> isDisposed (panel (heap w p))" for p
  proof -
    from that have "p \<in> set (live_panels w)" by (simp add: live_panels_def)
    with assms(2) have cur: "currentPanel w = Some this" by auto
    from assms(1) that have "currentPanel w = Some p" by (simp add: single_panel_iff)
    with cur show ?thesis by simp
  qed
  then have "\<forall>p < allocated (dispose this w). isDisposed (panel (heap (dispose this w) p))"
    by (auto simp: dispose_effect)
  then show ?thesis by (simp add: single_panel_iff)
qed

lemma WebviewPanel_dispose_single_panel:
  assumes "single_panel w" and "p < allocated w \<or> currentPanel w = Some p"
  shows "single_panel (WebviewPanel_dispose p w)"
proof (cases "isDisposed (panel (heap w p))")
  case True
  then show ?thesis using assms(1) by (simp add: WebviewPanel_dispose_eq)
next
  case False
  have "q = p" if "q < allocated w" "\<not> isDisposed (panel (heap w q))" for q
  proof -
    from assms(1) that have "currentPanel w = Some q" by (simp add: single_panel_iff)
    moreover have "currentPanel w = Some p"
      using assms False by (auto simp: single_panel_iff)
    ultimately show ?thesis by simp
  qed
  then have "\<forall>q < allocated (WebviewPanel_dispose p w).
      isDisposed (panel (heap (WebviewPanel_dispose p w) q))"
    by (auto simp: WebviewPanel_dispose_effect)
  then show ?thesis by (simp add: single_panel_iff)
qed

lemma render_single_panel:
  assumes "single_panel w"
  shows "single_panel (render mtw st w)"
proof (cases "currentPanel w")
  case None
  let ?w' = "render mtw st w"
  note new = render_new_effect [OF None, of mtw st]
  have old: "isDisposed (panel (heap w p))" if "p < allocated w" for p
    using assms None that by (auto simp: single_panel_iff)
  have "currentPanel ?w' = Some p"
    if "p < allocated ?w'" "\<not> isDisposed (panel (heap ?w' p))" for p
  proof (cases "p = allocated w")
    case True
    then show ?thesis using new by simp
  next
    case False
    with that(1) new have "p < allocated w" by simp
    then have "isDisposed (panel (heap w p))" by (rule old)
    moreover from False new have "heap ?w' p = heap w p" by simp
    ultimately show ?thesis using that(2) by simp
  qed
  then show ?thesis by (simp add: single_panel_iff)
next
  case (Some cp)
  show ?thesis
  proof (cases "active (panel (heap w cp))")
    case True
    with Some have "render mtw st w = WebviewPanel_dispose cp w"
      by (rule render_active)
    then show ?thesis
      using WebviewPanel_dispose_single_panel [of w cp] assms Some by simp
  next
    case False
    with Some have "render mtw st w = reveal cp Beside w"
      by (rule render_inactive)
    then show ?thesis
      using assms by (simp add: single_panel_iff reveal_def update_panel_def)
  qed
qed

subsection \<open>The concrete setting\<close>

lemma shown_world_cell:
  "heap shown_world 0 =
     \<lparr>panel = \<lparr>viewType = ''showVscodeTodoWebview'', title = ''Todo'', viewColumn = Beside,
               active = True, isDisposed = False,
               listeners = {onDidDispose, onDidReceiveMessage}, revealed = [],
               posted = [(''reloadWebview'', 0)]\<rparr>,
      disposables = [Some (Subscription 0 onDidDispose),
                     Some (Subscription 0 onDidReceiveMessage)],
      store = 0\<rparr>"
  using render_new_cell [of empty_world example_messages 0]
  by (simp add: shown_world_def empty_world_def example_messages_def example_store_def
        getState_def)

lemma shown_world_fields:
  "currentPanel shown_world = Some 0 \<and> allocated shown_world = Suc 0 \<and>
   stores shown_world = stores empty_world"
  using render_new_effect [of empty_world example_messages 0]
  by (simp add: shown_world_def empty_world_def)

lemma shown_world_single_panel: "single_panel shown_world"
  by (simp add: single_panel_iff shown_world_fields)

subsection \<open>What the listener dispatches\<close>

lemma newly_dispatched_switch_type:
  "newly_dispatched this w (switch_type acts this message w) =
     (case type message of
        Member t \<Rightarrow> [action_named t acts (payload message)]
      | Foreign v \<Rightarrow> [])"
  by (simp add: switch_type_def store_dispatch_def console_error_def newly_dispatched_def
        dispatch_def action_named_def
        split: received.splits MessageActionsFromWebview.splits)

lemma action_named_created: "action_named t acts p \<in> created_by acts"
  by (cases t) (simp_all add: action_named_def created_by_def)

lemma example_actions_apart:
  "created_by example_userActions \<inter> created_by example_workspaceActions = {}"
  by (auto simp: created_by_def example_userActions_def example_workspaceActions_def)

section \<open>The claims\<close>

text \<open>
  C1. For every inbound message whose scope is user or workspace and whose type is one of
  \<^verbatim>\<open>addTodo\<close>, \<^verbatim>\<open>deleteTodo\<close>, \<^verbatim>\<open>toggleTodo\<close>, \<^verbatim>\<open>editTodo\<close>, \<^verbatim>\<open>reorderTodo\<close>, the listener's whole
  effect is one \<^verbatim>\<open>dispatch\<close> on the store of its instance, and the action dispatched is the
  creator of the same name, taken from the action set of the scope, applied to the payload
  of the message.
\<close>

theorem listener_dispatches_named_action:
  assumes "scope message = Member sc" and "type message = Member t"
  shows "webviewMessageListener userActions workspaceActions this message w =
           w\<lparr>stores := (stores w)(store (heap w this) :=
                dispatch
                  (action_named t (actions_of_scope userActions workspaceActions sc)
                     (payload message))
                  (stores w (store (heap w this))))\<rparr> \<and>
         newly_dispatched this w
             (webviewMessageListener userActions workspaceActions this message w) =
           [action_named t (actions_of_scope userActions workspaceActions sc) (payload message)]"
  using assms
  by (cases sc; cases t)
     (simp_all add: webviewMessageListener_def switch_type_def store_dispatch_def
        action_named_def actions_of_scope_def newly_dispatched_def dispatch_def)

theorem listener_dispatches_named_action_witness:
  "scope add_seven = Member user \<and> type add_seven = Member type_addTodo \<and>
   newly_dispatched 0 shown_world
       (webviewMessageListener example_userActions example_workspaceActions 0 add_seven
          shown_world) =
     [(''user/addTodo'', 7)]"
proof -
  have sc: "scope add_seven = Member user" and t: "type add_seven = Member type_addTodo"
    by (simp_all add: add_seven_def)
  have "newly_dispatched 0 shown_world
          (webviewMessageListener example_userActions example_workspaceActions 0 add_seven
             shown_world) =
        [action_named type_addTodo
           (actions_of_scope example_userActions example_workspaceActions user)
           (payload add_seven)]"
    by (rule listener_dispatches_named_action [OF sc t, THEN conjunct2])
  then show ?thesis
    using sc t
    by (simp add: action_named_def actions_of_scope_def example_userActions_def)
       (simp add: add_seven_def)
qed

text \<open>
  C2. The action set the listener dispatches from is chosen by the scope of the message
  alone. With scope \<^verbatim>\<open>TodoScope.user\<close> what is dispatched is the creator of
  \<^verbatim>\<open>userActions\<close> that the type names, applied to the payload, or nothing when the type
  names none; \<^verbatim>\<open>workspaceActions\<close> has no part in the run (replacing it by any other set
  leaves the result as it is), and when the two sets create different actions, no action
  of \<^verbatim>\<open>workspaceActions\<close> is dispatched. With scope \<^verbatim>\<open>TodoScope.workspace\<close> the same
  holds with the two sets exchanged. With any other scope nothing is dispatched and
  neither set has a part in the run.
\<close>

theorem action_set_selected_by_scope:
  "(scope message = Member user \<longrightarrow>
      newly_dispatched this w
          (webviewMessageListener userActions workspaceActions this message w) =
        (case type message of
           Member t \<Rightarrow> [action_named t userActions (payload message)]
         | Foreign v \<Rightarrow> []) \<and>
      webviewMessageListener userActions other this message w =
        webviewMessageListener userActions workspaceActions this message w \<and>
      (created_by userActions \<inter> created_by workspaceActions = {} \<longrightarrow>
         set (newly_dispatched this w
                (webviewMessageListener userActions workspaceActions this message w))
           \<inter> created_by workspaceActions = {})) \<and>
   (scope message = Member workspace \<longrightarrow>
      newly_dispatched this w
          (webviewMessageListener userActions workspaceActions this message w) =
        (case type message of
           Member t \<Rightarrow> [action_named t workspaceActions (payload message)]
         | Foreign v \<Rightarrow> []) \<and>
      webviewMessageListener other workspaceActions this message w =
        webviewMessageListener userActions workspaceActions this message w \<and>
      (created_by userActions \<inter> created_by workspaceActions = {} \<longrightarrow>
         set (newly_dispatched this w
                (webviewMessageListener userActions workspaceActions this message w))
           \<inter> created_by userActions = {})) \<and>
   (scope message \<noteq> Member user \<and> scope message \<noteq> Member workspace \<longrightarrow>
      newly_dispatched this w
          (webviewMessageListener userActions workspaceActions this message w) = [] \<and>
      webviewMessageListener other other' this message w =
        webviewMessageListener userActions workspaceActions this message w)"
proof -
  have u: "newly_dispatched this w
             (webviewMessageListener userActions workspaceActions this message w) =
           (case type message of
              Member t \<Rightarrow> [action_named t userActions (payload message)]
            | Foreign v \<Rightarrow> [])"
    if "scope message = Member user"
    using that by (simp add: webviewMessageListener_def newly_dispatched_switch_type)
  have ws: "newly_dispatched this w
             (webviewMessageListener userActions workspaceActions this message w) =
           (case type message of
              Member t \<Rightarrow> [action_named t workspaceActions (payload message)]
            | Foreign v \<Rightarrow> [])"
    if "scope message = Member workspace"
    using that by (simp add: webviewMessageListener_def newly_dispatched_switch_type)
  have u_in: "set (newly_dispatched this w
                (webviewMessageListener userActions workspaceActions this message w))
              \<subseteq> created_by userActions"
    if "scope message = Member user"
    by (cases "type message") (simp_all add: u [OF that] action_named_created)
  have ws_in: "set (newly_dispatched this w
                (webviewMessageListener userActions workspaceActions this message w))
              \<subseteq> created_by workspaceActions"
    if "scope message = Member workspace"
    by (cases "type message") (simp_all add: ws [OF that] action_named_created)
  have first: "scope message = Member user \<longrightarrow>
      newly_dispatched this w
          (webviewMessageListener userActions workspaceActions this message w) =
        (case type message of
           Member t \<Rightarrow> [action_named t userActions (payload message)]
         | Foreign v \<Rightarrow> []) \<and>
      webviewMessageListener userActions other this message w =
        webviewMessageListener userActions workspaceActions this message w \<and>
      (created_by userActions \<inter> created_by workspaceActions = {} \<longrightarrow>
         set (newly_dispatched this w
                (webviewMessageListener userActions workspaceActions this message w))
           \<inter> created_by workspaceActions = {})"
  proof
    assume sc: "scope message = Member user"
    have "webviewMessageListener userActions other this message w =
        webviewMessageListener userActions workspaceActions this message w"
      using sc by (simp add: webviewMessageListener_def)
    moreover have "created_by userActions \<inter> created_by workspaceActions = {} \<longrightarrow>
         set (newly_dispatched this w
                (webviewMessageListener userActions workspaceActions this message w))
           \<inter> created_by workspaceActions = {}"
      using u_in [OF sc] by blast
    ultimately show "newly_dispatched this w
          (webviewMessageListener userActions workspaceActions this message w) =
        (case type message of
           Member t \<Rightarrow> [action_named t userActions (payload message)]
         | Foreign v \<Rightarrow> []) \<and>
      webviewMessageListener userActions other this message w =
        webviewMessageListener userActions workspaceActions this message w \<and>
      (created_by userActions \<inter> created_by workspaceActions = {} \<longrightarrow>
         set (newly_dispatched this w
                (webviewMessageListener userActions workspaceActions this message w))
           \<inter> created_by workspaceActions = {})"
      using u [OF sc] by blast
  qed
  have second: "scope message = Member workspace \<longrightarrow>
      newly_dispatched this w
          (webviewMessageListener userActions workspaceActions this message w) =
        (case type message of
           Member t \<Rightarrow> [action_named t workspaceActions (payload message)]
         | Foreign v \<Rightarrow> []) \<and>
      webviewMessageListener other workspaceActions this message w =
        webviewMessageListener userActions workspaceActions this message w \<and>
      (created_by userActions \<inter> created_by workspaceActions = {} \<longrightarrow>
         set (newly_dispatched this w
                (webviewMessageListener userActions workspaceActions this message w))
           \<inter> created_by userActions = {})"
  proof
    assume sc: "scope message = Member workspace"
    have "webviewMessageListener other workspaceActions this message w =
        webviewMessageListener userActions workspaceActions this message w"
      using sc by (simp add: webviewMessageListener_def)
    moreover have "created_by userActions \<inter> created_by workspaceActions = {} \<longrightarrow>
         set (newly_dispatched this w
                (webviewMessageListener userActions workspaceActions this message w))
           \<inter> created_by userActions = {}"
      using ws_in [OF sc] by blast
    ultimately show "newly_dispatched this w
          (webviewMessageListener userActions workspaceActions this message w) =
        (case type message of
           Member t \<Rightarrow> [action_named t workspaceActions (payload message)]
         | Foreign v \<Rightarrow> []) \<and>
      webviewMessageListener other workspaceActions this message w =
        webviewMessageListener userActions workspaceActions this message w \<and>
      (created_by userActions \<inter> created_by workspaceActions = {} \<longrightarrow>
         set (newly_dispatched this w
                (webviewMessageListener userActions workspaceActions this message w))
           \<inter> created_by userActions = {})"
      using ws [OF sc] by blast
  qed
  have third: "scope message \<noteq> Member user \<and> scope message \<noteq> Member workspace \<longrightarrow>
      newly_dispatched this w
          (webviewMessageListener userActions workspaceActions this message w) = [] \<and>
      webviewMessageListener other other' this message w =
        webviewMessageListener userActions workspaceActions this message w"
    by (simp add: webviewMessageListener_def console_error_def newly_dispatched_def)
  from first second third show ?thesis by blast
qed

theorem action_set_selected_by_scope_witness:
  "created_by example_userActions \<inter> created_by example_workspaceActions = {} \<and>
   scope add_seven = Member user \<and>
   newly_dispatched 0 shown_world
       (webviewMessageListener example_userActions example_workspaceActions 0 add_seven
          shown_world) =
     [(''user/addTodo'', 7)] \<and>
   webviewMessageListener example_userActions example_userActions 0 add_seven shown_world =
     webviewMessageListener example_userActions example_workspaceActions 0 add_seven
       shown_world \<and>
   set (newly_dispatched 0 shown_world
          (webviewMessageListener example_userActions example_workspaceActions 0 add_seven
             shown_world))
     \<inter> created_by example_workspaceActions = {} \<and>
   scope toggle_three = Member workspace \<and>
   newly_dispatched 0 shown_world
       (webviewMessageListener example_userActions example_workspaceActions 0 toggle_three
          shown_world) =
     [(''workspace/toggleTodo'', 3)] \<and>
   webviewMessageListener example_workspaceActions example_workspaceActions 0 toggle_three
       shown_world =
     webviewMessageListener example_userActions example_workspaceActions 0 toggle_three
       shown_world \<and>
   set (newly_dispatched 0 shown_world
          (webviewMessageListener example_userActions example_workspaceActions 0 toggle_three
             shown_world))
     \<inter> created_by example_userActions = {} \<and>
   scope stray_scope \<noteq> Member user \<and> scope stray_scope \<noteq> Member workspace \<and>
   newly_dispatched 0 shown_world
       (webviewMessageListener example_userActions example_workspaceActions 0 stray_scope
          shown_world) = []"
proof -
  have apart: "created_by example_userActions \<inter> created_by example_workspaceActions = {}"
    by (rule example_actions_apart)
  have a: "scope add_seven = Member user" and ta: "type add_seven = Member type_addTodo"
    and pa: "payload add_seven = 7"
    by (simp_all add: add_seven_def)
  have b: "scope toggle_three = Member workspace"
    and tb: "type toggle_three = Member type_toggleTodo" and pb: "payload toggle_three = 3"
    by (simp_all add: toggle_three_def)
  have c: "scope stray_scope \<noteq> Member user \<and> scope stray_scope \<noteq> Member workspace"
    by (simp add: stray_scope_def)
  have na: "action_named type_addTodo example_userActions 7 = (''user/addTodo'', 7)"
    by (simp add: action_named_def example_userActions_def)
  have nb: "action_named type_toggleTodo example_workspaceActions 3 = (''workspace/toggleTodo'', 3)"
    by (simp add: action_named_def example_workspaceActions_def)
  note A = action_set_selected_by_scope
    [where message = add_seven and userActions = example_userActions
       and workspaceActions = example_workspaceActions and other = example_userActions
       and this = 0 and w = shown_world]
  note B = action_set_selected_by_scope
    [where message = toggle_three and userActions = example_userActions
       and workspaceActions = example_workspaceActions and other = example_workspaceActions
       and this = 0 and w = shown_world]
  note C = action_set_selected_by_scope
    [where message = stray_scope and userActions = example_userActions
       and workspaceActions = example_workspaceActions and this = 0 and w = shown_world]
  have A1: "newly_dispatched 0 shown_world
       (webviewMessageListener example_userActions example_workspaceActions 0 add_seven
          shown_world) =
     (case type add_seven of
        Member t \<Rightarrow> [action_named t example_userActions (payload add_seven)]
      | Foreign v \<Rightarrow> [])"
    using A a by blast
  then have A1': "newly_dispatched 0 shown_world
       (webviewMessageListener example_userActions example_workspaceActions 0 add_seven
          shown_world) =
     [(''user/addTodo'', 7)]"
    by (simp add: ta pa na)
  have A2: "webviewMessageListener example_userActions example_userActions 0 add_seven
       shown_world =
     webviewMessageListener example_userActions example_workspaceActions 0 add_seven
       shown_world"
    using A a by blast
  have A3: "set (newly_dispatched 0 shown_world
          (webviewMessageListener example_userActions example_workspaceActions 0 add_seven
             shown_world))
     \<inter> created_by example_workspaceActions = {}"
    using A a apart by blast
  have B1: "newly_dispatched 0 shown_world
       (webviewMessageListener example_userActions example_workspaceActions 0 toggle_three
          shown_world) =
     (case type toggle_three of
        Member t \<Rightarrow> [action_named t example_workspaceActions (payload toggle_three)]
      | Foreign v \<Rightarrow> [])"
    using B b by blast
  then have B1': "newly_dispatched 0 shown_world
       (webviewMessageListener example_userActions example_workspaceActions 0 toggle_three
          shown_world) =
     [(''workspace/toggleTodo'', 3)]"
    by (simp add: tb pb nb)
  have B2: "webviewMessageListener example_workspaceActions example_workspaceActions 0
       toggle_three shown_world =
     webviewMessageListener example_userActions example_workspaceActions 0 toggle_three
       shown_world"
    using B b by blast
  have B3: "set (newly_dispatched 0 shown_world
          (webviewMessageListener example_userActions example_workspaceActions 0 toggle_three
             shown_world))
     \<inter> created_by example_userActions = {}"
    using B b apart by blast
  have C1: "newly_dispatched 0 shown_world
       (webviewMessageListener example_userActions example_workspaceActions 0 stray_scope
          shown_world) = []"
    using C c by blast
  from apart a b c A1' A2 A3 B1' B2 B3 C1 show ?thesis by blast
qed

text \<open>
  C3. For a message that is not recognized, the only effect of the listener is one line on
  the error console: \<^verbatim>\<open>Action scope not found\<close> when the scope is neither user nor
  workspace, \<^verbatim>\<open>Action not found\<close> when the scope is one of the two and the type is none of
  the five. Nothing is dispatched, and the stores, the panels and \<^verbatim>\<open>currentPanel\<close> are as
  before.
\<close>

theorem unrecognized_message_only_logs:
  "(scope message \<noteq> Member user \<and> scope message \<noteq> Member workspace \<longrightarrow>
      webviewMessageListener userActions workspaceActions this message w =
        w\<lparr>console := console w @ [''Action scope not found'']\<rparr>) \<and>
   ((scope message = Member user \<or> scope message = Member workspace) \<and>
    type message \<noteq> Member type_addTodo \<and> type message \<noteq> Member type_deleteTodo \<and>
    type message \<noteq> Member type_toggleTodo \<and> type message \<noteq> Member type_editTodo \<and>
    type message \<noteq> Member type_reorderTodo \<longrightarrow>
      webviewMessageListener userActions workspaceActions this message w =
        w\<lparr>console := console w @ [''Action not found'']\<rparr>) \<and>
   ((scope message \<noteq> Member user \<and> scope message \<noteq> Member workspace) \<or>
    (type message \<noteq> Member type_addTodo \<and> type message \<noteq> Member type_deleteTodo \<and>
     type message \<noteq> Member type_toggleTodo \<and> type message \<noteq> Member type_editTodo \<and>
     type message \<noteq> Member type_reorderTodo) \<longrightarrow>
      stores (webviewMessageListener userActions workspaceActions this message w) = stores w \<and>
      newly_dispatched this w
        (webviewMessageListener userActions workspaceActions this message w) = [] \<and>
      heap (webviewMessageListener userActions workspaceActions this message w) = heap w \<and>
      currentPanel (webviewMessageListener userActions workspaceActions this message w) =
        currentPanel w \<and>
      length (console (webviewMessageListener userActions workspaceActions this message w)) =
        Suc (length (console w)))"
  by (auto simp: webviewMessageListener_def switch_type_def console_error_def
        newly_dispatched_def split: received.splits MessageActionsFromWebview.splits)

theorem unrecognized_message_only_logs_witness:
  "scope stray_scope \<noteq> Member user \<and> scope stray_scope \<noteq> Member workspace \<and>
   webviewMessageListener example_userActions example_workspaceActions 0 stray_scope shown_world =
     shown_world\<lparr>console := console shown_world @ [''Action scope not found'']\<rparr> \<and>
   scope stray_type = Member workspace \<and>
   type stray_type \<noteq> Member type_addTodo \<and> type stray_type \<noteq> Member type_deleteTodo \<and>
   type stray_type \<noteq> Member type_toggleTodo \<and> type stray_type \<noteq> Member type_editTodo \<and>
   type stray_type \<noteq> Member type_reorderTodo \<and>
   webviewMessageListener example_userActions example_workspaceActions 0 stray_type shown_world =
     shown_world\<lparr>console := console shown_world @ [''Action not found'']\<rparr> \<and>
   stores (webviewMessageListener example_userActions example_workspaceActions 0 stray_type
     shown_world) = stores shown_world"
  using unrecognized_message_only_logs
    [where message = stray_scope and userActions = example_userActions
       and workspaceActions = example_workspaceActions and this = 0 and w = shown_world]
    unrecognized_message_only_logs
    [where message = stray_type and userActions = example_userActions
       and workspaceActions = example_workspaceActions and this = 0 and w = shown_world]
  by (simp add: stray_scope_def stray_type_def)

text \<open>
  C4, as the code has it. Call a world single when every live panel is the one
  \<^verbatim>\<open>currentPanel\<close> refers to; a single world has at most one live panel, and the world
  before the first \<^verbatim>\<open>render\<close> is single. \<^verbatim>\<open>render\<close> keeps a world single, and it creates a
  panel and assigns \<^verbatim>\<open>currentPanel\<close> only when \<^verbatim>\<open>currentPanel\<close> is undefined. The host closing
  a panel it created keeps a world single. \<^verbatim>\<open>dispose\<close> keeps a world single when it is
  called on the current panel, or while no panel is live.
\<close>

theorem single_panel_preserved:
  "(allocated w0 = 0 \<longrightarrow> single_panel w0) \<and>
   (single_panel w \<longrightarrow>
      length (live_panels w) \<le> 1 \<and>
      single_panel (render mtw st w) \<and>
      (currentPanel w = Some this \<or> live_panels w = [] \<longrightarrow> single_panel (dispose this w)) \<and>
      (p < allocated w \<longrightarrow> single_panel (WebviewPanel_dispose p w))) \<and>
   (currentPanel w \<noteq> None \<longrightarrow>
      allocated (render mtw st w) = allocated w \<and>
      (currentPanel (render mtw st w) = None \<or>
       currentPanel (render mtw st w) = currentPanel w)) \<and>
   (currentPanel w = None \<longrightarrow>
      allocated (render mtw st w) = Suc (allocated w) \<and>
      currentPanel (render mtw st w) = Some (allocated w))"
proof -
  have base: "allocated w0 = 0 \<longrightarrow> single_panel w0"
    by (simp add: single_panel_iff)
  have step: "single_panel w \<longrightarrow>
      length (live_panels w) \<le> 1 \<and>
      single_panel (render mtw st w) \<and>
      (currentPanel w = Some this \<or> live_panels w = [] \<longrightarrow> single_panel (dispose this w)) \<and>
      (p < allocated w \<longrightarrow> single_panel (WebviewPanel_dispose p w))"
    using single_panel_length [of w] render_single_panel [of w mtw st]
      dispose_single_panel [of w this] WebviewPanel_dispose_single_panel [of w p]
    by blast
  have existing: "currentPanel w \<noteq> None \<longrightarrow>
      allocated (render mtw st w) = allocated w \<and>
      (currentPanel (render mtw st w) = None \<or>
       currentPanel (render mtw st w) = currentPanel w)"
  proof
    assume "currentPanel w \<noteq> None"
    then obtain cp where cp: "currentPanel w = Some cp" by auto
    from render_existing [OF cp, of mtw st] cp
    show "allocated (render mtw st w) = allocated w \<and>
      (currentPanel (render mtw st w) = None \<or>
       currentPanel (render mtw st w) = currentPanel w)"
      by simp
  qed
  have new: "currentPanel w = None \<longrightarrow>
      allocated (render mtw st w) = Suc (allocated w) \<and>
      currentPanel (render mtw st w) = Some (allocated w)"
    using render_new_effect [of w mtw st] by simp
  from base step existing new show ?thesis by blast
qed

theorem single_panel_preserved_witness:
  "allocated empty_world = 0 \<and> single_panel empty_world \<and>
   currentPanel empty_world = None \<and>
   allocated (render example_messages 0 empty_world) = Suc (allocated empty_world) \<and>
   single_panel shown_world \<and> currentPanel shown_world = Some 0 \<and>
   currentPanel shown_world \<noteq> None \<and> 0 < allocated shown_world \<and>
   length (live_panels shown_world) \<le> 1 \<and>
   single_panel (render example_messages 0 shown_world) \<and>
   single_panel (dispose 0 shown_world) \<and>
   single_panel (WebviewPanel_dispose 0 shown_world) \<and>
   allocated (render example_messages 0 shown_world) = allocated shown_world"
  using single_panel_preserved
    [where ?w0.0 = empty_world and w = empty_world and mtw = example_messages and st = 0
       and this = 0 and p = 0]
    single_panel_preserved
    [where ?w0.0 = empty_world and w = shown_world and mtw = example_messages and st = 0
       and this = 0 and p = 0]
    shown_world_single_panel shown_world_fields
  by (simp add: empty_world_def)

text \<open>
  C4 as it is worded fails. \<^verbatim>\<open>dispose\<close> clears the static \<^verbatim>\<open>currentPanel\<close> whichever
  instance it is called on. Render, dispose the panel, render again, and call \<^verbatim>\<open>dispose\<close>
  once more on the first instance: one panel is live and \<^verbatim>\<open>currentPanel\<close> is undefined, so
  the next \<^verbatim>\<open>render\<close> creates a second live panel.
\<close>

theorem stale_dispose_second_panel:
  "length (live_panels (dispose 0 (render example_messages 0
      (dispose 0 (render example_messages 0 empty_world))))) = 1 \<and>
   length (live_panels (render example_messages 0 (dispose 0 (render example_messages 0
      (dispose 0 (render example_messages 0 empty_world)))))) = 2"
proof -
  let ?w1 = "render example_messages 0 empty_world"
  let ?w2 = "dispose 0 ?w1"
  let ?w3 = "render example_messages 0 ?w2"
  let ?w4 = "dispose 0 ?w3"
  let ?w5 = "render example_messages 0 ?w4"
  have w1: "allocated ?w1 = Suc 0"
    using render_new_effect [of empty_world example_messages 0] by (simp add: empty_world_def)
  have w2: "allocated ?w2 = Suc 0" "currentPanel ?w2 = None" "isDisposed (panel (heap ?w2 0))"
    using dispose_effect [of 0 ?w1 0] w1 by simp_all
  have w3: "allocated ?w3 = Suc (Suc 0)" "\<not> isDisposed (panel (heap ?w3 (Suc 0)))"
    "heap ?w3 0 = heap ?w2 0"
    using render_new_effect [OF w2(2), of example_messages 0] w2(1) by simp_all
  have w4: "allocated ?w4 = Suc (Suc 0)" "currentPanel ?w4 = None"
    "isDisposed (panel (heap ?w4 0))" "\<not> isDisposed (panel (heap ?w4 (Suc 0)))"
    using dispose_effect [of 0 ?w3 0] dispose_effect [of 0 ?w3 "Suc 0"] w3 by simp_all
  have w5: "allocated ?w5 = Suc (Suc (Suc 0))"
    "\<not> isDisposed (panel (heap ?w5 (Suc (Suc 0))))"
    "heap ?w5 0 = heap ?w4 0" "heap ?w5 (Suc 0) = heap ?w4 (Suc 0)"
    using render_new_effect [OF w4(2), of example_messages 0] w4(1) by simp_all
  have "live_panels ?w4 = [Suc 0]"
    using w4 by (simp add: live_panels_def)
  moreover have "live_panels ?w5 = [Suc 0, Suc (Suc 0)]"
    using w5 w4 by (simp add: live_panels_def)
  ultimately show ?thesis by simp
qed

text \<open>
  C5. \<^verbatim>\<open>render\<close> takes one of three branches. With a current panel that is active, the
  host's \<^verbatim>\<open>dispose\<close> is called on it: the panel is disposed afterwards, no panel is created
  and \<^verbatim>\<open>reveal\<close> is not called. With a current panel that is not active, the only effect is
  one call of \<^verbatim>\<open>reveal\<close> with \<^verbatim>\<open>ViewColumn.Beside\<close> on it. With no current panel, a panel is
  created, titled \<^verbatim>\<open>Todo\<close> and shown beside, it becomes the current panel, and no other
  object changes.
\<close>

theorem render_three_branches:
  "(currentPanel w = Some cp \<and> active (panel (heap w cp)) \<longrightarrow>
      render mtw st w = WebviewPanel_dispose cp w \<and>
      isDisposed (panel (heap (render mtw st w) cp)) \<and>
      allocated (render mtw st w) = allocated w \<and>
      revealed (panel (heap (render mtw st w) cp)) = revealed (panel (heap w cp))) \<and>
   (currentPanel w = Some cp \<and> \<not> active (panel (heap w cp)) \<longrightarrow>
      render mtw st w =
        w\<lparr>heap := (heap w)(cp := (heap w cp)
            \<lparr>panel := (panel (heap w cp))
                \<lparr>revealed := revealed (panel (heap w cp)) @ [Beside]\<rparr>\<rparr>)\<rparr>) \<and>
   (currentPanel w = None \<longrightarrow>
      currentPanel (render mtw st w) = Some (allocated w) \<and>
      allocated (render mtw st w) = Suc (allocated w) \<and>
      title (panel (heap (render mtw st w) (allocated w))) = ''Todo'' \<and>
      viewColumn (panel (heap (render mtw st w) (allocated w))) = Beside \<and>
      \<not> isDisposed (panel (heap (render mtw st w) (allocated w))) \<and>
      revealed (panel (heap (render mtw st w) (allocated w))) = [] \<and>
      (\<forall>p. p \<noteq> allocated w \<longrightarrow> heap (render mtw st w) p = heap w p))"
proof -
  have first: "currentPanel w = Some cp \<and> active (panel (heap w cp)) \<longrightarrow>
      render mtw st w = WebviewPanel_dispose cp w \<and>
      isDisposed (panel (heap (render mtw st w) cp)) \<and>
      allocated (render mtw st w) = allocated w \<and>
      revealed (panel (heap (render mtw st w) cp)) = revealed (panel (heap w cp))"
    using WebviewPanel_dispose_effect [of cp w cp]
    by (simp add: render_active)
  have second: "currentPanel w = Some cp \<and> \<not> active (panel (heap w cp)) \<longrightarrow>
      render mtw st w =
        w\<lparr>heap := (heap w)(cp := (heap w cp)
            \<lparr>panel := (panel (heap w cp))
                \<lparr>revealed := revealed (panel (heap w cp)) @ [Beside]\<rparr>\<rparr>)\<rparr>"
    by (simp add: render_inactive reveal_def update_panel_def)
  have third: "currentPanel w = None \<longrightarrow>
      currentPanel (render mtw st w) = Some (allocated w) \<and>
      allocated (render mtw st w) = Suc (allocated w) \<and>
      title (panel (heap (render mtw st w) (allocated w))) = ''Todo'' \<and>
      viewColumn (panel (heap (render mtw st w) (allocated w))) = Beside \<and>
      \<not> isDisposed (panel (heap (render mtw st w) (allocated w))) \<and>
      revealed (panel (heap (render mtw st w) (allocated w))) = [] \<and>
      (\<forall>p. p \<noteq> allocated w \<longrightarrow> heap (render mtw st w) p = heap w p)"
    using render_new_effect [of w mtw st] render_new_cell [of w mtw st]
    by simp
  from first second third show ?thesis by blast
qed

theorem render_three_branches_witness:
  "(currentPanel shown_world = Some 0 \<and> active (panel (heap shown_world 0)) \<and>
    isDisposed (panel (heap (render example_messages 0 shown_world) 0)) \<and>
    allocated (render example_messages 0 shown_world) = allocated shown_world) \<and>
   (currentPanel hidden_world = Some 0 \<and> \<not> active (panel (heap hidden_world 0)) \<and>
    render example_messages 0 hidden_world =
      hidden_world\<lparr>heap := (heap hidden_world)(0 := (heap hidden_world 0)
        \<lparr>panel := (panel (heap hidden_world 0))
            \<lparr>revealed := revealed (panel (heap hidden_world 0)) @ [Beside]\<rparr>\<rparr>)\<rparr>) \<and>
   (currentPanel empty_world = None \<and>
    currentPanel (render example_messages 0 empty_world) = Some (allocated empty_world) \<and>
    title (panel (heap (render example_messages 0 empty_world) (allocated empty_world))) =
      ''Todo'')"
proof -
  have a: "currentPanel shown_world = Some 0 \<and> active (panel (heap shown_world 0))"
    by (simp add: shown_world_fields shown_world_cell)
  have b: "currentPanel hidden_world = Some 0 \<and> \<not> active (panel (heap hidden_world 0))"
    by (simp add: hidden_world_def update_panel_def shown_world_fields)
  have c: "currentPanel empty_world = None"
    by (simp add: empty_world_def)
  from a b c
    render_three_branches [where w = shown_world and cp = 0 and mtw = example_messages and st = 0]
    render_three_branches [where w = hidden_world and cp = 0 and mtw = example_messages and st = 0]
    render_three_branches [where w = empty_world and cp = 0 and mtw = example_messages and st = 0]
  show ?thesis by blast
qed

text \<open>
  C6, as the code has it. For every slice state handed to \<^verbatim>\<open>updateWebview\<close> on an instance
  whose panel is not disposed, the call returns and its whole effect is one call of
  \<^verbatim>\<open>postMessage\<close> on the webview of the instance, with the message that
  \<^verbatim>\<open>messagesToWebview.syncData\<close> builds from that slice state, passed on as it was received.
\<close>

theorem updateWebview_posts_syncData:
  assumes "\<not> isDisposed (panel (heap w this))"
  shows "updateWebview mtw this newSliceState w =
     Inr (w\<lparr>heap := (heap w)(this := (heap w this)
         \<lparr>panel := (panel (heap w this))
             \<lparr>posted := posted (panel (heap w this)) @ [mk_syncData mtw newSliceState]\<rparr>\<rparr>)\<rparr>)"
  using assms
  by (simp add: updateWebview_def webview_def postMessage_def update_panel_def)

theorem updateWebview_posts_syncData_witness:
  "\<not> isDisposed (panel (heap shown_world 0)) \<and>
   updateWebview example_messages 0 5 shown_world =
     Inr (shown_world\<lparr>heap := (heap shown_world)(0 := (heap shown_world 0)
         \<lparr>panel := (panel (heap shown_world 0))
             \<lparr>posted := [(''reloadWebview'', 0), (''syncData'', 5)]\<rparr>\<rparr>)\<rparr>)"
proof -
  have open_panel: "\<not> isDisposed (panel (heap shown_world 0))"
    by (simp add: shown_world_cell)
  have "posted (panel (heap shown_world 0)) @ [mk_syncData example_messages 5] =
        [(''reloadWebview'', 0), (''syncData'', 5)]"
    by (simp add: shown_world_cell example_messages_def)
  with open_panel
    updateWebview_posts_syncData [OF open_panel, where mtw = example_messages and newSliceState = 5]
  show ?thesis by simp
qed

text \<open>
  C6 as it is worded fails. \<^verbatim>\<open>updateWebview\<close> has no test of its own, and on an instance
  whose panel is disposed the host's getter raises: after \<^verbatim>\<open>render\<close> and \<^verbatim>\<open>dispose\<close>, a
  call of \<^verbatim>\<open>updateWebview\<close> on that instance posts nothing.
\<close>

theorem updateWebview_disposed_raises:
  "updateWebview example_messages 0 5 (dispose 0 (render example_messages 0 empty_world)) =
     Inl Webview_is_disposed"
proof -
  have "isDisposed (panel (heap (dispose 0 (render example_messages 0 empty_world)) 0))"
    by (simp add: dispose_effect)
  then show ?thesis by (simp add: updateWebview_def webview_def)
qed

text \<open>
  C7. After \<^verbatim>\<open>dispose\<close> returns, \<^verbatim>\<open>currentPanel\<close> is undefined, the panel of the instance is
  disposed, its array of disposables is empty, and every subscription that was in the
  array has been disposed of. The function is total, so it does return.
\<close>

theorem dispose_postcondition:
  "currentPanel (dispose this w) = None \<and>
   isDisposed (panel (heap (dispose this w) this)) \<and>
   disposables (heap (dispose this w) this) = [] \<and>
   (\<forall>d. Some d \<in> set (disposables (heap w this)) \<longrightarrow>
        subscription_disposed d (dispose this w))"
proof -
  let ?w1 = "update_panel this (\<lambda>pn. pn\<lparr>isDisposed := True\<rparr>) (w\<lparr>currentPanel := None\<rparr>)"
  have eq: "dispose this w = dispose_loop this ?w1" by (rule dispose_eq)
  have a: "currentPanel (dispose this w) = None"
    and b: "isDisposed (panel (heap (dispose this w) this))"
    by (simp_all add: dispose_effect)
  have c: "disposables (heap (dispose this w) this) = []"
    by (simp add: eq dispose_loop_disposables)
  have ds: "disposables (heap ?w1 this) = disposables (heap w this)"
    by (simp add: update_panel_def)
  have d: "subscription_disposed d (dispose this w)"
    if "Some d \<in> set (disposables (heap w this))" for d
  proof (cases d)
    case (Subscription p ev)
    with that ds have "Some (Subscription p ev) \<in> set (disposables (heap ?w1 this))" by simp
    then have "ev \<notin> listeners (panel (heap (dispose_loop this ?w1) p))"
      by (rule dispose_loop_disposes)
    then show ?thesis by (simp add: eq subscription_disposed_def Subscription)
  qed
  from a b c d show ?thesis by blast
qed

theorem dispose_postcondition_witness:
  "Some (Subscription 0 onDidDispose) \<in> set (disposables (heap shown_world 0)) \<and>
   Some (Subscription 0 onDidReceiveMessage) \<in> set (disposables (heap shown_world 0)) \<and>
   subscription_disposed (Subscription 0 onDidDispose) (dispose 0 shown_world) \<and>
   subscription_disposed (Subscription 0 onDidReceiveMessage) (dispose 0 shown_world) \<and>
   currentPanel (dispose 0 shown_world) = None \<and>
   isDisposed (panel (heap (dispose 0 shown_world) 0)) \<and>
   disposables (heap (dispose 0 shown_world) 0) = []"
proof -
  have m: "Some (Subscription 0 onDidDispose) \<in> set (disposables (heap shown_world 0))"
    "Some (Subscription 0 onDidReceiveMessage) \<in> set (disposables (heap shown_world 0))"
    by (simp_all add: shown_world_cell)
  from m dispose_postcondition [of 0 shown_world] show ?thesis by blast
qed

text \<open>
  C8. \<^verbatim>\<open>dispose\<close> is idempotent: called a second time right after the first, on the same
  instance, it leaves the world as the first call left it, with \<^verbatim>\<open>currentPanel\<close> undefined
  and the array of disposables empty.
\<close>

theorem dispose_idempotent:
  "dispose this (dispose this w) = dispose this w \<and>
   currentPanel (dispose this (dispose this w)) = None \<and>
   disposables (heap (dispose this (dispose this w)) this) = []"
proof -
  let ?w' = "dispose this w"
  have cur: "currentPanel ?w' = None" and dis: "isDisposed (panel (heap ?w' this))"
    by (simp_all add: dispose_effect)
  have emp: "disposables (heap ?w' this) = []"
    by (simp add: dispose_eq [of this w] dispose_loop_disposables)
  have "?w'\<lparr>currentPanel := None\<rparr> = ?w'" using cur by simp
  moreover have "update_panel this (\<lambda>pn. pn\<lparr>isDisposed := True\<rparr>) ?w' = ?w'"
    using dis by (simp add: update_panel_same)
  ultimately have "dispose this ?w' = dispose_loop this ?w'"
    by (simp add: dispose_eq [of this ?w'])
  then have "dispose this ?w' = ?w'" using emp by (simp add: dispose_loop_empty)
  then show ?thesis using cur emp by simp
qed

text \<open>
  C9. The constructor posts one message to the webview of its panel, the one
  \<^verbatim>\<open>messagesToWebview.reloadWebview\<close> builds from \<^verbatim>\<open>getState()\<close> of the store it was given.
  So when \<^verbatim>\<open>render\<close> creates a panel, the messages posted to the new webview are that
  message and nothing else.
\<close>

theorem new_panel_reloads_webview:
  "posted (panel (heap (constructor mtw this st w) this)) =
     posted (panel (heap w this)) @ [mk_reloadWebview mtw (getState (stores w st))] \<and>
   (currentPanel w = None \<longrightarrow>
      posted (panel (heap (render mtw st w) (allocated w))) =
        [mk_reloadWebview mtw (getState (stores w st))])"
proof -
  have "posted (panel (heap (constructor mtw this st w) this)) =
     posted (panel (heap w this)) @ [mk_reloadWebview mtw (getState (stores w st))]"
    by (simp add: constructor_def subscribe_def setWebviewMessageListener_def
          reloadWebview_def postMessage_def update_panel_def Let_def)
  moreover have "currentPanel w = None \<longrightarrow>
      posted (panel (heap (render mtw st w) (allocated w))) =
        [mk_reloadWebview mtw (getState (stores w st))]"
    using render_new_cell [of w mtw st] by simp
  ultimately show ?thesis by blast
qed

theorem new_panel_reloads_webview_witness:
  "currentPanel empty_world = None \<and>
   posted (panel (heap (render example_messages 0 empty_world) (allocated empty_world))) =
     [(''reloadWebview'', 0)]"
  using new_panel_reloads_webview
    [where mtw = example_messages and st = 0 and w = empty_world and this = 0]
  by (simp add: empty_world_def example_messages_def example_store_def getState_def)

text \<open>
  C10. What the listener does is fixed by the scope, the type and the payload of the
  message. Two messages that agree on the three give the same result in the same world,
  whatever else they carry; and the actions dispatched are the same for two runs in any
  two worlds and on any two instances, so they do not depend on the state of the store.
\<close>

theorem listener_deterministic:
  assumes "scope m1 = scope m2" and "type m1 = type m2" and "payload m1 = payload m2"
  shows "webviewMessageListener userActions workspaceActions this m1 w =
           webviewMessageListener userActions workspaceActions this m2 w \<and>
         newly_dispatched this1 w1
             (webviewMessageListener userActions workspaceActions this1 m1 w1) =
           newly_dispatched this2 w2
             (webviewMessageListener userActions workspaceActions this2 m2 w2)"
  using assms
  by (auto simp: webviewMessageListener_def switch_type_def store_dispatch_def
        console_error_def newly_dispatched_def dispatch_def
        split: received.splits MessageActionsFromWebview.splits)

theorem listener_deterministic_witness:
  "scope add_seven = scope add_seven_tagged \<and> type add_seven = type add_seven_tagged \<and>
   payload add_seven = payload add_seven_tagged \<and>
   webviewMessageListener example_userActions example_workspaceActions 0 add_seven shown_world =
     webviewMessageListener example_userActions example_workspaceActions 0 add_seven_tagged
       shown_world \<and>
   newly_dispatched 0 empty_world
       (webviewMessageListener example_userActions example_workspaceActions 0 add_seven
          empty_world) =
     newly_dispatched 0 shown_world
       (webviewMessageListener example_userActions example_workspaceActions 0 add_seven_tagged
          shown_world)"
proof -
  have h: "scope add_seven = scope add_seven_tagged" "type add_seven = type add_seven_tagged"
    "payload add_seven = payload add_seven_tagged"
    by (simp_all add: add_seven_def add_seven_tagged_def)
  from h listener_deterministic [OF h, where userActions = example_userActions
      and workspaceActions = example_workspaceActions and this = 0 and w = shown_world
      and ?this1.0 = 0 and ?w1.0 = empty_world and ?this2.0 = 0 and ?w2.0 = shown_world]
  show ?thesis by blast
qed

end
